theory Spec2Isabelle
  imports Complex_Main
begin

section \<open>The notebook CorrectnessVerificationAndPerformanceComparison\<close>

text \<open>
  The repository is one notebook: it defines a PyTorch module, exports it to ONNX,
  converts the ONNX graph to a pair of Caffe2 nets, saves and reloads the nets, runs both
  models, compares the results and benchmarks both runtimes. Every operation on tensors,
  graphs, nets and files is a call into torch, onnx, caffe2, onnx_caffe2 or numpy. None of
  those libraries is part of the repository, so the embedding takes them as a parameter:
  a record \<open>library\<close> with one field for each function the notebook calls. What is
  proved holds for every library.

  A call that raises is a value \<open>Inl e\<close>. The notebook's calls into the library and its
  prints are recorded, in the order in which they happen, in a list of events. A function
  of the library that is handed the module (the exporter, the benchmark) can run it; the
  calls of \<open>torch.mm\<close> that the module then makes are recorded in the event of that call.
\<close>

subsection \<open>Exceptions\<close>

datatype error = AssertionError | IndexError | LibraryError string

subsection \<open>The caffe2 protobuf messages the notebook touches\<close>

text \<open>
  \<open>caffe2_pb2.CPU\<close> and \<open>caffe2_pb2.CUDA\<close> are the values 0 and 1 of the
  enumeration of device types of caffe2.proto. A \<open>DeviceOption\<close> message is reduced to
  the two fields that \<open>core.DeviceOption(device_type, id)\<close> sets, a \<open>NetDef\<close> to its
  optional field \<open>device_option\<close> and the rest of the message.
\<close>

definition CPU :: int where
  "CPU = 0"

definition CUDA :: int where
  "CUDA = 1"

record DeviceOption =
  device_type :: int
  cuda_gpu_id :: int

definition core_DeviceOption :: "int \<Rightarrow> int \<Rightarrow> DeviceOption" where
  "core_DeviceOption dt gpu = \<lparr>device_type = dt, cuda_gpu_id = gpu\<rparr>"

record 'n NetDef =
  device_option :: "DeviceOption option"
  net_rest :: 'n

text \<open>\<open>net.device_option.CopyFrom(opts)\<close>: the field becomes a copy of \<open>opts\<close>.\<close>

definition device_option_CopyFrom :: "'n NetDef \<Rightarrow> DeviceOption \<Rightarrow> 'n NetDef" where
  "device_option_CopyFrom net opts = net\<lparr>device_option := Some opts\<rparr>"

subsection \<open>Events\<close>

text \<open>
  The only call that the module makes is \<open>torch.mm(m1, m2)\<close>.
\<close>

datatype 't torch_call = Call_torch_mm 't 't

text \<open>
  One constructor for each call the notebook makes, with the arguments it passes.
  \<open>'t\<close> is the type of torch Variables and tensors, \<open>'a\<close> of numpy arrays, \<open>'m\<close> of
  ONNX models, \<open>'g\<close> of ONNX graphs, \<open>'n\<close> of what a NetDef holds beside its device
  option, \<open>'r\<close> of the entries of a benchmark result. The named inputs that
  \<open>name_inputs\<close> returns are a named tuple: a list of names with an array each.
  The module passed to the exporter and to the benchmark is always \<open>pytorch_model\<close>
  and is left out of the event. The calls in which the module runs (the notebook's
  \<open>pytorch_model(*inputs)\<close>, \<open>torch.onnx.export\<close> and \<open>benchmark_pytorch_model\<close>)
  carry the list of the calls of \<open>torch.mm\<close> made by the module during the call.
\<close>

datatype fmt_arg = NoArg | IntArg int

datatype ('t, 'a, 'm, 'g, 'n, 'r) event =
    Call_pytorch_model 't 't "'t torch_call list"
  | Call_onnx_export "'t \<times> 't" bool "'t torch_call list"
  | Call_FromString string
  | Call_check_model 'm
  | Call_onnx_graph_to_caffe2_net 'g
  | Call_save_caffe2_net "'n NetDef" string bool
  | Call_load_caffe2_net string
  | Call_name_inputs 'm "'a list"
  | Call_c2_native_run_net "'n NetDef" "'n NetDef" "(string \<times> 'a) list"
  | Call_cpu 't
  | Call_assert_almost_equal 'a 'a int
  | Call_benchmark_pytorch_model "'t \<times> 't" "'t torch_call list"
  | Call_benchmark_caffe2_model "'n NetDef" "'n NetDef"
  | Print string fmt_arg
  | Print_time string 'r

subsection \<open>Running: the events so far and a result or an exception\<close>

type_synonym ('e, 'x) run = "'e list \<times> (error + 'x)"

definition ret :: "'x \<Rightarrow> ('e, 'x) run" where
  "ret x = ([], Inr x)"

definition call :: "'e \<Rightarrow> error + 'x \<Rightarrow> ('e, 'x) run" where
  "call ev r = ([ev], r)"

text \<open>
  A call during which the module runs: one event, which holds the calls the module made.
\<close>

definition call_nested :: "('c list \<Rightarrow> 'e) \<Rightarrow> ('c, 'x) run \<Rightarrow> ('e, 'x) run" where
  "call_nested ev m = ([ev (fst m)], snd m)"

text \<open>An expression of the notebook's own, which calls no library but may raise.\<close>

definition expr :: "error + 'x \<Rightarrow> ('e, 'x) run" where
  "expr r = ([], r)"

definition then_run :: "('e, 'x) run \<Rightarrow> ('x \<Rightarrow> ('e, 'y) run) \<Rightarrow> ('e, 'y) run" where
  "then_run m f =
     (case m of
        (evs, Inl e) \<Rightarrow> (evs, Inl e)
      | (evs, Inr x) \<Rightarrow> (case f x of (evs', r) \<Rightarrow> (evs @ evs', r)))"

definition events :: "('e, 'x) run \<Rightarrow> 'e list" where
  "events m = fst m"

definition outcome :: "('e, 'x) run \<Rightarrow> error + 'x" where
  "outcome m = snd m"

subsection \<open>The libraries\<close>

text \<open>
  One field for each function of torch, onnx, onnx_caffe2 and numpy that the notebook
  calls: \<open>torch.mm\<close>, the attribute \<open>.data\<close> and the methods \<open>.cpu()\<close> and
  \<open>.numpy()\<close> of a tensor, \<open>torch.onnx.export\<close>, \<open>onnx.ModelProto.FromString\<close>,
  \<open>onnx.checker.check_model\<close>, the attribute \<open>.graph\<close> of a model,
  \<open>Caffe2Backend.onnx_graph_to_caffe2_net\<close>, the helpers of \<open>onnx_caffe2.helper\<close>
  and \<open>np.testing.assert_almost_equal\<close>. A function that can raise returns
  \<open>error + _\<close>; reading an attribute and converting a tensor are taken not to raise.
  A function of the library depends on its arguments only and does not change them; the
  file system is passed to and returned by the functions that use it.

  A PyTorch module is what calling it does. A function of the library that is handed the
  module may run it, any number of times, on arguments of its choice, and sees what each
  run returns or raises: \<open>Run_module m1 m2 k\<close> runs the module on \<open>m1\<close> and \<open>m2\<close> and
  goes on with \<open>k\<close> of the result, \<open>Return r\<close> ends with the result \<open>r\<close>.
\<close>

datatype ('t, 'x) uses_module =
    Return "error + 'x"
  | Run_module 't 't "error + 't \<Rightarrow> ('t, 'x) uses_module"

type_synonym 't module = "'t \<Rightarrow> 't \<Rightarrow> ('t torch_call, 't) run"

primrec with_module :: "'t module \<Rightarrow> ('t, 'x) uses_module \<Rightarrow> ('t torch_call, 'x) run" where
  "with_module pytorch_model (Return r) = ([], r)"
| "with_module pytorch_model (Run_module m1 m2 k) =
     (case pytorch_model m1 m2 of
        (evs, r) \<Rightarrow>
          (case with_module pytorch_model (k r) of (evs', r') \<Rightarrow> (evs @ evs', r')))"

record ('t, 'a, 'm, 'g, 'n, 'w, 'r, 'f) library =
  torch_mm :: "'t \<Rightarrow> 't \<Rightarrow> error + 't"
  tensor_data :: "'t \<Rightarrow> 't"
  tensor_cpu :: "'t \<Rightarrow> 't"
  tensor_numpy :: "'t \<Rightarrow> 'a"
  onnx_export :: "'t \<times> 't \<Rightarrow> bool \<Rightarrow> ('t, string) uses_module"
  ModelProto_FromString :: "string \<Rightarrow> error + 'm"
  check_model :: "'m \<Rightarrow> error + unit"
  model_graph :: "'m \<Rightarrow> 'g"
  onnx_graph_to_caffe2_net :: "'g \<Rightarrow> error + ('n NetDef \<times> 'n NetDef)"
  save_caffe2_net :: "'n NetDef \<Rightarrow> string \<Rightarrow> bool \<Rightarrow> 'f \<Rightarrow> error + 'f"
  load_caffe2_net :: "string \<Rightarrow> 'f \<Rightarrow> error + 'n NetDef"
  name_inputs :: "'m \<Rightarrow> 'a list \<Rightarrow> error + (string \<times> 'a) list"
  c2_native_run_net ::
    "'n NetDef \<Rightarrow> 'n NetDef \<Rightarrow> (string \<times> 'a) list \<Rightarrow> error + ('w \<times> 'a list)"
  assert_almost_equal :: "'a \<Rightarrow> 'a \<Rightarrow> int \<Rightarrow> error + unit"
  benchmark_pytorch_model :: "'t \<times> 't \<Rightarrow> ('t, 'r list) uses_module"
  benchmark_caffe2_model :: "'n NetDef \<Rightarrow> 'n NetDef \<Rightarrow> error + 'r list"

subsection \<open>Cell 1: the module and its inputs\<close>

text \<open>
  \<open>MyModel.forward(self, m1, m2)\<close> is \<open>return torch.mm(m1, m2)\<close>; calling the module
  calls \<open>forward\<close>. The two Variables of \<open>inputs\<close> are drawn by \<open>torch.randn\<close>; they
  are the parameters \<open>x1\<close> and \<open>x2\<close> of the notebook.
\<close>

definition forward :: "('t, 'a, 'm, 'g, 'n, 'w, 'r, 'f) library \<Rightarrow> 't module" where
  "forward lib m1 m2 = call (Call_torch_mm m1 m2) (torch_mm lib m1 m2)"

text \<open>Iterating over the tuple \<open>inputs\<close>.\<close>

definition tuple_items :: "'t \<times> 't \<Rightarrow> 't list" where
  "tuple_items inputs = [fst inputs, snd inputs]"

text \<open>\<open>xs[0]\<close>, which raises IndexError on an empty sequence.\<close>

definition item0 :: "'r list \<Rightarrow> error + 'r" where
  "item0 xs = (case xs of [] \<Rightarrow> Inl IndexError | x # _ \<Rightarrow> Inr x)"

subsection \<open>Cell 2: export to ONNX and check\<close>

text \<open>
  \<open>torch.onnx.export(pytorch_model, inputs, f, verbose=True)\<close> writes the serialised
  model to the fresh buffer \<open>f\<close>; \<open>f.getvalue()\<close> is what it wrote. The exporter is
  handed the module and may run it.
\<close>

definition cell_export ::
  "('t, 'a, 'm, 'g, 'n, 'w, 'r, 'f) library \<Rightarrow> 't module \<Rightarrow>
   't \<times> 't \<Rightarrow> (('t, 'a, 'm, 'g, 'n, 'r) event, 'm) run" where
  "cell_export lib pytorch_model inputs =
     then_run (call_nested (Call_onnx_export inputs True)
                 (with_module pytorch_model (onnx_export lib inputs True)))
       (\<lambda>f_value.
     then_run (call (Call_FromString f_value) (ModelProto_FromString lib f_value))
       (\<lambda>onnx_model.
     then_run (call (Print ''Check the ONNX model.'' NoArg) (Inr ()))
       (\<lambda>_.
     then_run (call (Call_check_model onnx_model) (check_model lib onnx_model))
       (\<lambda>_.
     ret onnx_model))))"

subsection \<open>Cell 3: convert to Caffe2 and set the device option\<close>

definition cell_convert ::
  "('t, 'a, 'm, 'g, 'n, 'w, 'r, 'f) library \<Rightarrow> 'm \<Rightarrow>
   (('t, 'a, 'm, 'g, 'n, 'r) event, 'n NetDef \<times> 'n NetDef \<times> DeviceOption) run" where
  "cell_convert lib onnx_model =
     then_run (call (Print ''Convert the model to a Caffe2 model.'' NoArg) (Inr ()))
       (\<lambda>_.
     then_run (call (Call_onnx_graph_to_caffe2_net (model_graph lib onnx_model))
                 (onnx_graph_to_caffe2_net lib (model_graph lib onnx_model)))
       (\<lambda>nets.
     let init_net = fst nets;
         predict_net = snd nets;
         device_opts = core_DeviceOption CPU 0;
         init_net = device_option_CopyFrom init_net device_opts;
         predict_net = device_option_CopyFrom predict_net device_opts
     in ret (init_net, predict_net, device_opts)))"

subsection \<open>Cell 4: the inputs for Caffe2\<close>

text \<open>\<open>caffe2_inputs = [var.data.numpy() for var in inputs]\<close>\<close>

definition cell_caffe2_inputs ::
  "('t, 'a, 'm, 'g, 'n, 'w, 'r, 'f) library \<Rightarrow> 't \<times> 't \<Rightarrow> 'a list" where
  "cell_caffe2_inputs lib inputs =
     map (\<lambda>var. tensor_numpy lib (tensor_data lib var)) (tuple_items inputs)"

subsection \<open>Cell 5: save the nets and load them again\<close>

text \<open>
  The files live in a file system of type \<open>'f\<close>, which \<open>save_caffe2_net\<close> changes and
  \<open>load_caffe2_net\<close> reads. The loaded nets replace \<open>init_net\<close> and \<open>predict_net\<close>.
\<close>

definition init_file :: string where
  "init_file = ''./output/mymodel_init.pb''"

definition predict_file :: string where
  "predict_file = ''./output/mymodel_predict.pb''"

definition cell_save_load ::
  "('t, 'a, 'm, 'g, 'n, 'w, 'r, 'f) library \<Rightarrow> 'f \<Rightarrow> 'n NetDef \<Rightarrow> 'n NetDef \<Rightarrow>
   (('t, 'a, 'm, 'g, 'n, 'r) event, 'n NetDef \<times> 'n NetDef) run" where
  "cell_save_load lib fs init_net predict_net =
     then_run (call (Call_save_caffe2_net init_net init_file False)
                 (save_caffe2_net lib init_net init_file False fs))
       (\<lambda>fs1.
     then_run (call (Call_save_caffe2_net predict_net predict_file True)
                 (save_caffe2_net lib predict_net predict_file True fs1))
       (\<lambda>fs2.
     then_run (call (Call_load_caffe2_net init_file) (load_caffe2_net lib init_file fs2))
       (\<lambda>init_net.
     then_run (call (Call_load_caffe2_net predict_file) (load_caffe2_net lib predict_file fs2))
       (\<lambda>predict_net.
     ret (init_net, predict_net)))))"

subsection \<open>Cell 6: run both models\<close>

definition cell_run ::
  "('t, 'a, 'm, 'g, 'n, 'w, 'r, 'f) library \<Rightarrow> 't module \<Rightarrow>
   't \<times> 't \<Rightarrow> 'm \<Rightarrow> 'a list \<Rightarrow> 'n NetDef \<Rightarrow> 'n NetDef \<Rightarrow>
   (('t, 'a, 'm, 'g, 'n, 'r) event, 't \<times> 'a list) run" where
  "cell_run lib pytorch_model inputs onnx_model caffe2_inputs init_net predict_net =
     then_run (call_nested (Call_pytorch_model (fst inputs) (snd inputs))
                 (pytorch_model (fst inputs) (snd inputs)))
       (\<lambda>pytorch_results.
     then_run (call (Call_name_inputs onnx_model caffe2_inputs)
                 (name_inputs lib onnx_model caffe2_inputs))
       (\<lambda>named.
     then_run (call (Call_c2_native_run_net init_net predict_net named)
                 (c2_native_run_net lib init_net predict_net named))
       (\<lambda>ws_and_outputs.
     let caffe2_results = snd ws_and_outputs
     in ret (pytorch_results, caffe2_results))))"

subsection \<open>Cell 7: compare the results\<close>

text \<open>
  The loop \<open>for p, c in zip([pytorch_results], caffe2_results)\<close>. Its body calls
  \<open>p.cpu()\<close> when the device type is CUDA, then
  \<open>np.testing.assert_almost_equal(p.data.cpu().numpy(), c, decimal=expected_decimal)\<close>.
  An assertion that fails raises, which ends the loop and the cell.
\<close>

fun verify_loop ::
  "('t, 'a, 'm, 'g, 'n, 'w, 'r, 'f) library \<Rightarrow> DeviceOption \<Rightarrow> int \<Rightarrow> ('t \<times> 'a) list \<Rightarrow>
   (('t, 'a, 'm, 'g, 'n, 'r) event, unit) run" where
  "verify_loop lib device_opts expected_decimal [] = ret ()"
| "verify_loop lib device_opts expected_decimal ((p, c) # pcs) =
     then_run (if device_type device_opts = CUDA
               then call (Call_cpu p) (Inr (tensor_cpu lib p))
               else ret p)
       (\<lambda>_.
     then_run (let actual = tensor_numpy lib (tensor_cpu lib (tensor_data lib p))
               in call (Call_assert_almost_equal actual c expected_decimal)
                    (assert_almost_equal lib actual c expected_decimal))
       (\<lambda>_.
     verify_loop lib device_opts expected_decimal pcs))"

definition cell_verify ::
  "('t, 'a, 'm, 'g, 'n, 'w, 'r, 'f) library \<Rightarrow> DeviceOption \<Rightarrow> 't \<Rightarrow> 'a list \<Rightarrow>
   (('t, 'a, 'm, 'g, 'n, 'r) event, unit) run" where
  "cell_verify lib device_opts pytorch_results caffe2_results =
     (let expected_decimal = 5 in
      then_run (verify_loop lib device_opts expected_decimal
                  (zip [pytorch_results] caffe2_results))
        (\<lambda>_.
      call (Print ''The exported model achieves {}-decimal precision.''
              (IntArg expected_decimal)) (Inr ())))"

subsection \<open>Cell 8: benchmark both runtimes\<close>

definition cell_benchmark ::
  "('t, 'a, 'm, 'g, 'n, 'w, 'r, 'f) library \<Rightarrow> 't module \<Rightarrow>
   't \<times> 't \<Rightarrow> 'n NetDef \<Rightarrow> 'n NetDef \<Rightarrow> (('t, 'a, 'm, 'g, 'n, 'r) event, unit) run" where
  "cell_benchmark lib pytorch_model inputs init_net predict_net =
     then_run (call_nested (Call_benchmark_pytorch_model inputs)
                 (with_module pytorch_model (benchmark_pytorch_model lib inputs)))
       (\<lambda>pytorch_times.
     then_run (call (Call_benchmark_caffe2_model init_net predict_net)
                 (benchmark_caffe2_model lib init_net predict_net))
       (\<lambda>caffe2_times.
     then_run (expr (item0 pytorch_times))
       (\<lambda>t1.
     then_run (call (Print_time ''PyTorch model's execution time is {} / iteration.'' t1)
                 (Inr ()))
       (\<lambda>_.
     then_run (expr (item0 caffe2_times))
       (\<lambda>t2.
     call (Print_time ''Caffe2 model's execution time is {} / iteration.'' t2) (Inr ()))))))"

subsection \<open>The notebook, cell after cell\<close>

text \<open>
  A cell that raises ends the run. \<open>fs\<close> is the file system at the start, \<open>x1\<close> and
  \<open>x2\<close> are the two Variables of \<open>inputs\<close>.
\<close>

definition notebook ::
  "('t, 'a, 'm, 'g, 'n, 'w, 'r, 'f) library \<Rightarrow> 'f \<Rightarrow> 't \<Rightarrow> 't \<Rightarrow>
   (('t, 'a, 'm, 'g, 'n, 'r) event, unit) run" where
  "notebook lib fs x1 x2 =
     (let pytorch_model = forward lib;
          inputs = (x1, x2)
      in
      then_run (cell_export lib pytorch_model inputs)
        (\<lambda>onnx_model.
      then_run (cell_convert lib onnx_model)
        (\<lambda>converted.
      let init_net = fst converted;
          predict_net = fst (snd converted);
          device_opts = snd (snd converted);
          caffe2_inputs = cell_caffe2_inputs lib inputs
      in
      then_run (cell_save_load lib fs init_net predict_net)
        (\<lambda>loaded.
      let init_net = fst loaded;
          predict_net = snd loaded
      in
      then_run (cell_run lib pytorch_model inputs onnx_model caffe2_inputs init_net predict_net)
        (\<lambda>results.
      let pytorch_results = fst results;
          caffe2_results = snd results
      in
      then_run (cell_verify lib device_opts pytorch_results caffe2_results)
        (\<lambda>_.
      cell_benchmark lib pytorch_model inputs init_net predict_net))))))"

section \<open>Reading a list of events\<close>

text \<open>
  The steps of the workflow. Saving and loading the nets stands between the conversion
  and the runs and has a step of its own; a print belongs to no step. The step of a call
  is the step of the statement of the notebook that makes it: the runs of the module
  that the exporter or the benchmark makes are part of the export and of the benchmark.
\<close>

datatype step = Export | Convert | Reload | Run | Assert | Benchmark

fun step_of :: "('t, 'a, 'm, 'g, 'n, 'r) event \<Rightarrow> step option" where
  "step_of (Call_onnx_export inputs verbose calls) = Some Export"
| "step_of (Call_FromString b) = Some Export"
| "step_of (Call_check_model m) = Some Export"
| "step_of (Call_onnx_graph_to_caffe2_net g) = Some Convert"
| "step_of (Call_save_caffe2_net net file txt) = Some Reload"
| "step_of (Call_load_caffe2_net file) = Some Reload"
| "step_of (Call_pytorch_model m1 m2 calls) = Some Run"
| "step_of (Call_name_inputs m arrs) = Some Run"
| "step_of (Call_c2_native_run_net init_net predict_net named) = Some Run"
| "step_of (Call_cpu p) = Some Assert"
| "step_of (Call_assert_almost_equal actual desired decimal) = Some Assert"
| "step_of (Call_benchmark_pytorch_model inputs calls) = Some Benchmark"
| "step_of (Call_benchmark_caffe2_model init_net predict_net) = Some Benchmark"
| "step_of (Print s a) = None"
| "step_of (Print_time s t) = None"

fun rank :: "step \<Rightarrow> nat" where
  "rank Export = 1"
| "rank Convert = 2"
| "rank Reload = 3"
| "rank Run = 4"
| "rank Assert = 5"
| "rank Benchmark = 6"

definition steps :: "('t, 'a, 'm, 'g, 'n, 'r) event list \<Rightarrow> step list" where
  "steps evs = List.map_filter step_of evs"

text \<open>The assertions made: actual, desired and decimal of each.\<close>

fun assertion_of :: "('t, 'a, 'm, 'g, 'n, 'r) event \<Rightarrow> ('a \<times> 'a \<times> int) option" where
  "assertion_of (Call_assert_almost_equal actual desired decimal) = Some (actual, desired, decimal)"
| "assertion_of _ = None"

definition assertions :: "('t, 'a, 'm, 'g, 'n, 'r) event list \<Rightarrow> ('a \<times> 'a \<times> int) list" where
  "assertions evs = List.map_filter assertion_of evs"

text \<open>The calls \<open>p.cpu()\<close> of the branch for CUDA.\<close>

fun cuda_call_of :: "('t, 'a, 'm, 'g, 'n, 'r) event \<Rightarrow> 't option" where
  "cuda_call_of (Call_cpu p) = Some p"
| "cuda_call_of _ = None"

definition cuda_branch_calls :: "('t, 'a, 'm, 'g, 'n, 'r) event list \<Rightarrow> 't list" where
  "cuda_branch_calls evs = List.map_filter cuda_call_of evs"

text \<open>The runs of the Caffe2 nets: the two nets and the named inputs of each.\<close>

fun caffe2_run_of ::
  "('t, 'a, 'm, 'g, 'n, 'r) event \<Rightarrow> ('n NetDef \<times> 'n NetDef \<times> (string \<times> 'a) list) option" where
  "caffe2_run_of (Call_c2_native_run_net init_net predict_net named) =
     Some (init_net, predict_net, named)"
| "caffe2_run_of _ = None"

definition caffe2_runs ::
  "('t, 'a, 'm, 'g, 'n, 'r) event list \<Rightarrow> ('n NetDef \<times> 'n NetDef \<times> (string \<times> 'a) list) list" where
  "caffe2_runs evs = List.map_filter caffe2_run_of evs"

text \<open>
  The arguments of the benchmarks: the inputs handed to \<open>benchmark_pytorch_model\<close>, the
  nets handed to \<open>benchmark_caffe2_model\<close>.
\<close>

fun benchmark_of ::
  "('t, 'a, 'm, 'g, 'n, 'r) event \<Rightarrow> (('t \<times> 't) + ('n NetDef \<times> 'n NetDef)) option" where
  "benchmark_of (Call_benchmark_pytorch_model inputs calls) = Some (Inl inputs)"
| "benchmark_of (Call_benchmark_caffe2_model init_net predict_net) =
     Some (Inr (init_net, predict_net))"
| "benchmark_of _ = None"

definition benchmark_arguments ::
  "('t, 'a, 'm, 'g, 'n, 'r) event list \<Rightarrow> (('t \<times> 't) + ('n NetDef \<times> 'n NetDef)) list" where
  "benchmark_arguments evs = List.map_filter benchmark_of evs"

section \<open>The comparison of numpy\<close>

text \<open>
  \<open>np.testing.assert_almost_equal\<close> is not part of the repository. It is modelled from
  numpy's documentation: on arrays it raises an AssertionError unless the two arrays have
  the same shape and every pair of elements satisfies
  \<open>abs(desired-actual) < 1.5 * 10**(-decimal)\<close>. An array is its shape and its elements
  in row-major order; the elements are real numbers, so the model has no rounding, no
  NaN and no infinity.
\<close>

record ndarray =
  shape :: "nat list"
  elems :: "real list"

definition tolerance :: "int \<Rightarrow> real" where
  "tolerance decimal =
     (if 0 \<le> decimal then (3 / 2) / 10 ^ nat decimal else (3 / 2) * 10 ^ nat (- decimal))"

definition np_assert_almost_equal :: "ndarray \<Rightarrow> ndarray \<Rightarrow> int \<Rightarrow> error + unit" where
  "np_assert_almost_equal actual desired decimal =
     (if shape actual = shape desired \<and>
         list_all2 (\<lambda>a d. \<bar>d - a\<bar> < tolerance decimal) (elems actual) (elems desired)
      then Inr ()
      else Inl AssertionError)"

section \<open>Libraries to run the notebook on\<close>

text \<open>
  A small library for running the notebook on a concrete input, for a given product and a
  given comparison: an array is a tensor, a model and a graph are strings, the file system
  is a list of paths with the net stored at each, the exporter and the benchmark run the
  module once on the inputs, and the Caffe2 net computes the product of its two inputs.
\<close>

definition toy_library ::
  "('t \<Rightarrow> 't \<Rightarrow> error + 't) \<Rightarrow> ('t \<Rightarrow> 't \<Rightarrow> int \<Rightarrow> error + unit) \<Rightarrow>
   ('t, 't, string, string, string, unit, nat, (string \<times> string NetDef) list) library" where
  "toy_library product compare =
     \<lparr>torch_mm = product,
      tensor_data = (\<lambda>t. t),
      tensor_cpu = (\<lambda>t. t),
      tensor_numpy = (\<lambda>t. t),
      onnx_export =
        (\<lambda>inputs verbose.
           Run_module (fst inputs) (snd inputs)
             (\<lambda>r. case r of Inl e \<Rightarrow> Return (Inl e) | Inr _ \<Rightarrow> Return (Inr ''Gemm''))),
      ModelProto_FromString = (\<lambda>b. Inr b),
      check_model = (\<lambda>m. if m = ''Gemm'' then Inr () else Inl (LibraryError ''check'')),
      model_graph = (\<lambda>m. m),
      onnx_graph_to_caffe2_net =
        (\<lambda>g. Inr (\<lparr>device_option = None, net_rest = ''init''\<rparr>,
                  \<lparr>device_option = None, net_rest = g\<rparr>)),
      save_caffe2_net = (\<lambda>net file txt fs. Inr ((file, net) # fs)),
      load_caffe2_net =
        (\<lambda>file fs. case map_of fs file of
                      None \<Rightarrow> Inl (LibraryError ''load'')
                    | Some net \<Rightarrow> Inr net),
      name_inputs = (\<lambda>m arrs. Inr (map (\<lambda>a. (''input'', a)) arrs)),
      c2_native_run_net =
        (\<lambda>init_net predict_net named.
           case map snd named of
             [a, b] \<Rightarrow> (case product a b of Inl e \<Rightarrow> Inl e | Inr c \<Rightarrow> Inr ((), [c]))
           | _ \<Rightarrow> Inl (LibraryError ''run'')),
      assert_almost_equal = compare,
      benchmark_pytorch_model =
        (\<lambda>inputs. Run_module (fst inputs) (snd inputs) (\<lambda>r. Return (Inr [10, 100]))),
      benchmark_caffe2_model = (\<lambda>init_net predict_net. Inr [6, 170])\<rparr>"

text \<open>Tensors are integers, the product is the product of integers, the comparison is equality.\<close>

definition equal_or_raise :: "int \<Rightarrow> int \<Rightarrow> int \<Rightarrow> error + unit" where
  "equal_or_raise actual desired decimal =
     (if actual = desired then Inr () else Inl AssertionError)"

definition small_library ::
  "(int, int, string, string, string, unit, nat, (string \<times> string NetDef) list) library" where
  "small_library = toy_library (\<lambda>m1 m2. Inr (m1 * m2)) equal_or_raise"

text \<open>The same with the sum in the place of the product: both models return other results.\<close>

definition sum_library ::
  "(int, int, string, string, string, unit, nat, (string \<times> string NetDef) list) library" where
  "sum_library = toy_library (\<lambda>m1 m2. Inr (m1 + m2)) equal_or_raise"

text \<open>
  Tensors are arrays of real numbers, the product is the product of matrices and the
  comparison is numpy's.
\<close>

definition mat_mul :: "ndarray \<Rightarrow> ndarray \<Rightarrow> error + ndarray" where
  "mat_mul a b =
     (case (shape a, shape b) of
        ([n, k], [k', m]) \<Rightarrow>
          if k = k'
          then Inr \<lparr>shape = [n, m],
                    elems = concat (map (\<lambda>i. map (\<lambda>j. sum_list (map (\<lambda>l.
                      elems a ! (i * k + l) * elems b ! (l * m + j)) [0..<k])) [0..<m]) [0..<n])\<rparr>
          else Inl (LibraryError ''size mismatch'')
      | _ \<Rightarrow> Inl (LibraryError ''matrices expected''))"

definition real_library ::
  "(ndarray, ndarray, string, string, string, unit, nat, (string \<times> string NetDef) list) library"
  where
  "real_library = toy_library mat_mul np_assert_almost_equal"

section \<open>Runs\<close>

lemma events_then_run:
  "events (then_run m f) =
     events m @ (case outcome m of Inl e \<Rightarrow> [] | Inr x \<Rightarrow> events (f x))"
  by (simp add: then_run_def events_def outcome_def split: prod.splits sum.splits)

lemma outcome_then_run:
  "outcome (then_run m f) = (case outcome m of Inl e \<Rightarrow> Inl e | Inr x \<Rightarrow> outcome (f x))"
  by (simp add: then_run_def events_def outcome_def split: prod.splits sum.splits)

lemma events_call [simp]: "events (call ev r) = [ev]"
  by (simp add: call_def events_def)

lemma outcome_call [simp]: "outcome (call ev r) = r"
  by (simp add: call_def outcome_def)

lemma events_ret [simp]: "events (ret x) = []"
  by (simp add: ret_def events_def)

lemma outcome_ret [simp]: "outcome (ret x) = Inr x"
  by (simp add: ret_def outcome_def)

lemma events_expr [simp]: "events (expr r) = []"
  by (simp add: expr_def events_def)

lemma outcome_expr [simp]: "outcome (expr r) = r"
  by (simp add: expr_def outcome_def)

lemma events_call_nested [simp]: "events (call_nested ev m) = [ev (events m)]"
  by (simp add: call_nested_def events_def)

lemma outcome_call_nested [simp]: "outcome (call_nested ev m) = outcome m"
  by (simp add: call_nested_def outcome_def)

lemma events_forward [simp]: "events (forward lib m1 m2) = [Call_torch_mm m1 m2]"
  by (simp add: forward_def)

lemma outcome_forward [simp]: "outcome (forward lib m1 m2) = torch_mm lib m1 m2"
  by (simp add: forward_def)

lemma events_with_module_Return [simp]: "events (with_module pm (Return r)) = []"
  by (simp add: events_def)

lemma outcome_with_module_Return [simp]: "outcome (with_module pm (Return r)) = r"
  by (simp add: outcome_def)

lemma events_with_module_Run:
  "events (with_module pm (Run_module m1 m2 k)) =
     events (pm m1 m2) @ events (with_module pm (k (outcome (pm m1 m2))))"
  by (simp add: events_def outcome_def split: prod.splits)

lemma outcome_with_module_Run:
  "outcome (with_module pm (Run_module m1 m2 k)) =
     outcome (with_module pm (k (outcome (pm m1 m2))))"
  by (simp add: events_def outcome_def split: prod.splits)

lemmas run_simps = events_then_run outcome_then_run

lemmas library_defs = small_library_def sum_library_def real_library_def toy_library_def
  equal_or_raise_def events_with_module_Run outcome_with_module_Run

lemma map_filter_append:
  "List.map_filter f (xs @ ys) = List.map_filter f xs @ List.map_filter f ys"
  by (simp add: List.map_filter_def)

lemma map_filter_then_run:
  "List.map_filter g (events (then_run m f)) =
     List.map_filter g (events m) @
     (case outcome m of Inl e \<Rightarrow> [] | Inr x \<Rightarrow> List.map_filter g (events (f x)))"
  by (simp add: events_then_run map_filter_append split: sum.splits)

section \<open>The module\<close>

text \<open>
  Claim C2. For all tensors \<open>m1\<close> and \<open>m2\<close>, whatever their shapes,
  \<open>MyModel.forward(m1, m2)\<close> returns what \<open>torch.mm(m1, m2)\<close> returns (the matrix
  product, or the exception that \<open>torch.mm\<close> raises), and the call of \<open>torch.mm\<close> is
  the only computation it performs.
\<close>

theorem forward_is_torch_mm:
  "events (forward lib m1 m2) = [Call_torch_mm m1 m2] \<and>
   outcome (forward lib m1 m2) = torch_mm lib m1 m2"
  by (simp add: forward_def)

section \<open>The comparison of the results\<close>




section \<open>The closeness that is asserted\<close>

lemma outcome_verify_loop_single:
  "outcome (verify_loop lib d k [(p, c)]) =
     assert_almost_equal lib (tensor_numpy lib (tensor_cpu lib (tensor_data lib p))) c k"
  by (cases "assert_almost_equal lib (tensor_numpy lib (tensor_cpu lib (tensor_data lib p))) c k")
    (simp_all add: run_simps Let_def)

text \<open>
  Claim C1, with the bound of numpy in the place of \<open>10^-5\<close>. The comparison cell
  asserts closeness at decimal 5 of the PyTorch result and the first Caffe2 output: for
  every library whose \<open>assert_almost_equal\<close> is numpy's, the cell ends normally if and
  only if the two arrays have the same shape and every pair of elements satisfies
  \<open>|O_A - O_B| < 1.5 * 10^-5\<close>, and raises an AssertionError otherwise. (With no Caffe2
  output nothing is compared and the cell ends normally.)
\<close>

theorem verify_passes_iff_numpy_close:
  "outcome (cell_verify (lib\<lparr>assert_almost_equal := np_assert_almost_equal\<rparr>)
      device_opts pytorch_results caffe2_results) =
     (case caffe2_results of
        [] \<Rightarrow> Inr ()
      | c # _ \<Rightarrow>
          if shape (tensor_numpy lib (tensor_cpu lib (tensor_data lib pytorch_results))) = shape c \<and>
             list_all2 (\<lambda>a d. \<bar>d - a\<bar> < (3 / 2) / 10 ^ 5)
               (elems (tensor_numpy lib (tensor_cpu lib (tensor_data lib pytorch_results))))
               (elems c)
          then Inr ()
          else Inl AssertionError)"
proof (cases caffe2_results)
  case Nil
  then show ?thesis
    by (simp add: cell_verify_def Let_def run_simps)
next
  case (Cons c cs)
  then show ?thesis
    by (simp add: cell_verify_def Let_def outcome_then_run outcome_verify_loop_single
        np_assert_almost_equal_def tolerance_def)
qed

text \<open>
  Claim C1 as it is written fails: the two arrays below differ by \<open>1.2 * 10^-5\<close> in
  their only element, which violates \<open>|O_A - O_B| < 10^-5\<close>, and the assertion does not
  fail.
\<close>

theorem verify_passes_beyond_claimed_bound:
  "outcome (cell_verify real_library (core_DeviceOption CPU 0)
      \<lparr>shape = [1, 1], elems = [0]\<rparr> [\<lparr>shape = [1, 1], elems = [12 / 10 ^ 6]\<rparr>]) = Inr () \<and>
   \<not> \<bar>12 / 10 ^ 6 - (0 :: real)\<bar> < 1 / 10 ^ 5"
  by (simp add: cell_verify_def Let_def run_simps library_defs np_assert_almost_equal_def
      tolerance_def core_DeviceOption_def CPU_def CUDA_def)

section \<open>The device option\<close>

lemma cuda_branch_calls_then_run:
  "cuda_branch_calls (events (then_run m f)) =
     cuda_branch_calls (events m) @
     (case outcome m of Inl e \<Rightarrow> [] | Inr x \<Rightarrow> cuda_branch_calls (events (f x)))"
  unfolding cuda_branch_calls_def by (rule map_filter_then_run)

lemma cuda_branch_calls_simps [simp]:
  "cuda_branch_calls [] = []"
  "cuda_branch_calls (ev # evs) =
     (case cuda_call_of ev of None \<Rightarrow> cuda_branch_calls evs | Some p \<Rightarrow> p # cuda_branch_calls evs)"
  unfolding cuda_branch_calls_def by simp_all

lemma no_cuda_verify_loop:
  "device_type d \<noteq> CUDA \<Longrightarrow> cuda_branch_calls (events (verify_loop lib d k pcs)) = []"
  by (induction pcs) (auto simp add: cuda_branch_calls_then_run Let_def split: sum.splits)

lemma no_cuda_cell_export: "cuda_branch_calls (events (cell_export lib pm inputs)) = []"
  by (simp add: cell_export_def cuda_branch_calls_then_run split: sum.splits)

lemma no_cuda_cell_convert: "cuda_branch_calls (events (cell_convert lib m)) = []"
  by (simp add: cell_convert_def cuda_branch_calls_then_run Let_def split: sum.splits)

lemma no_cuda_cell_save_load: "cuda_branch_calls (events (cell_save_load lib fs i p)) = []"
  by (simp add: cell_save_load_def cuda_branch_calls_then_run split: sum.splits)

lemma no_cuda_cell_run:
  "cuda_branch_calls (events (cell_run lib pm inputs m arrs i p)) = []"
  by (simp add: cell_run_def cuda_branch_calls_then_run Let_def split: sum.splits)

lemma no_cuda_cell_verify:
  "device_type d \<noteq> CUDA \<Longrightarrow> cuda_branch_calls (events (cell_verify lib d p cs)) = []"
  by (simp add: cell_verify_def cuda_branch_calls_then_run no_cuda_verify_loop Let_def
      split: sum.splits)

lemma no_cuda_cell_benchmark:
  "cuda_branch_calls (events (cell_benchmark lib pm inputs i p)) = []"
  by (simp add: cell_benchmark_def cuda_branch_calls_then_run split: sum.splits)

lemma cell_convert_device_opts:
  "outcome (cell_convert lib m) = Inr c \<Longrightarrow> snd (snd c) = core_DeviceOption CPU 0"
  by (auto simp add: cell_convert_def outcome_then_run Let_def split: sum.splits)

lemma CPU_not_CUDA: "device_type (core_DeviceOption CPU gpu) \<noteq> CUDA"
  by (simp add: core_DeviceOption_def CPU_def CUDA_def)

text \<open>
  Claim C9. \<open>device_opts\<close> is \<open>core.DeviceOption(caffe2_pb2.CPU, 0)\<close> and is not
  assigned again, so in every run of the notebook, whatever the libraries return and
  wherever the run ends, the branch \<open>if device_opts.device_type == caffe2_pb2.CUDA\<close>
  of the comparison loop is not entered: \<open>p.cpu()\<close> is never called.
\<close>

theorem cuda_branch_unreachable:
  "cuda_branch_calls (events (notebook lib fs x1 x2)) = []"
  by (simp add: notebook_def Let_def cuda_branch_calls_then_run no_cuda_cell_export
      no_cuda_cell_convert no_cuda_cell_save_load no_cuda_cell_run no_cuda_cell_verify
      no_cuda_cell_benchmark cell_convert_device_opts CPU_not_CUDA split: sum.splits)


section \<open>The order of the steps\<close>

subsection \<open>In every run the steps are in order\<close>

lemma steps_simps [simp]:
  "steps [] = []"
  "steps (ev # evs) = (case step_of ev of None \<Rightarrow> steps evs | Some s \<Rightarrow> s # steps evs)"
  unfolding steps_def by simp_all

lemma steps_then_run:
  "steps (events (then_run m f)) =
     steps (events m) @ (case outcome m of Inl e \<Rightarrow> [] | Inr x \<Rightarrow> steps (events (f x)))"
  unfolding steps_def by (rule map_filter_then_run)

lemma sorted_constant: "\<forall>x\<in>set xs. g x = (k :: nat) \<Longrightarrow> sorted (map g xs)"
  by (induction xs) auto

lemma steps_last:
  assumes "\<forall>s\<in>set (steps (events m)). rank s = k"
  shows "sorted (map rank (steps (events m))) \<and> (\<forall>s\<in>set (steps (events m)). k \<le> rank s)"
  using sorted_constant [OF assms] assms by simp

lemma steps_seq:
  assumes "\<forall>s\<in>set (steps (events m)). rank s = k"
      and "\<And>x. sorted (map rank (steps (events (f x)))) \<and>
               (\<forall>s\<in>set (steps (events (f x))). Suc k \<le> rank s)"
  shows "sorted (map rank (steps (events (then_run m f)))) \<and>
         (\<forall>s\<in>set (steps (events (then_run m f))). k \<le> rank s)"
proof (cases "outcome m")
  case (Inl e)
  then show ?thesis
    using assms(1) sorted_constant [OF assms(1)] by (simp add: steps_then_run)
next
  case (Inr x)
  have a: "sorted (map rank (steps (events m)))"
    using assms(1) by (rule sorted_constant)
  from assms(2) [of x] have b: "sorted (map rank (steps (events (f x))))"
    and c: "\<forall>s\<in>set (steps (events (f x))). Suc k \<le> rank s"
    by simp_all
  from assms(1) c have d: "\<forall>s\<in>set (steps (events m)). \<forall>s'\<in>set (steps (events (f x))). rank s \<le> rank s'"
    by fastforce
  from c have e: "\<forall>s\<in>set (steps (events (f x))). k \<le> rank s"
    by fastforce
  show ?thesis
    using a b d e assms(1) by (auto simp add: steps_then_run Inr sorted_append)
qed

lemma steps_cell_export: "\<forall>s\<in>set (steps (events (cell_export lib pm inputs))). rank s = 1"
  by (auto simp add: cell_export_def steps_then_run split: sum.splits)

lemma steps_cell_convert: "\<forall>s\<in>set (steps (events (cell_convert lib m))). rank s = 2"
  by (auto simp add: cell_convert_def steps_then_run Let_def split: sum.splits)

lemma steps_cell_save_load: "\<forall>s\<in>set (steps (events (cell_save_load lib fs i p))). rank s = 3"
  by (auto simp add: cell_save_load_def steps_then_run split: sum.splits)

lemma steps_cell_run:
  "\<forall>s\<in>set (steps (events (cell_run lib pm inputs m arrs i p))). rank s = 4"
  by (auto simp add: cell_run_def steps_then_run Let_def split: sum.splits)

lemma steps_verify_loop: "\<forall>s\<in>set (steps (events (verify_loop lib d k pcs))). rank s = 5"
  by (induction pcs) (auto simp add: steps_then_run Let_def split: sum.splits if_splits)

lemma steps_cell_verify: "\<forall>s\<in>set (steps (events (cell_verify lib d p cs))). rank s = 5"
  using steps_verify_loop [of lib d 5 "zip [p] cs"]
  by (auto simp add: cell_verify_def steps_then_run Let_def split: sum.splits)

lemma steps_cell_benchmark:
  "\<forall>s\<in>set (steps (events (cell_benchmark lib pm inputs i p))). rank s = 6"
  by (auto simp add: cell_benchmark_def steps_then_run split: sum.splits)

lemma notebook_sorted:
  "sorted (map rank (steps (events (notebook lib fs x1 x2)))) \<and>
   (\<forall>s\<in>set (steps (events (notebook lib fs x1 x2))). 1 \<le> rank s)"
  unfolding notebook_def Let_def
  apply (rule steps_seq, rule steps_cell_export [unfolded One_nat_def] steps_cell_export)
  apply (rule steps_seq, simp add: steps_cell_convert)
  apply (rule steps_seq, simp add: steps_cell_save_load)
  apply (rule steps_seq, simp add: steps_cell_run)
  apply (rule steps_seq, simp add: steps_cell_verify)
  apply (rule steps_last, simp add: steps_cell_benchmark)
  done


subsection \<open>What a cell that returns has done\<close>

lemma cell_export_ok:
  assumes "outcome (cell_export lib pm inputs) = Inr onnx_model"
  shows "\<exists>f_value.
           outcome (with_module pm (onnx_export lib inputs True)) = Inr f_value \<and>
           ModelProto_FromString lib f_value = Inr onnx_model \<and>
           check_model lib onnx_model = Inr () \<and>
           events (cell_export lib pm inputs) =
             [Call_onnx_export inputs True (events (with_module pm (onnx_export lib inputs True))),
              Call_FromString f_value,
              Print ''Check the ONNX model.'' NoArg, Call_check_model onnx_model]"
  using assms by (auto simp add: cell_export_def run_simps split: sum.splits)

lemma cell_convert_ok:
  assumes "outcome (cell_convert lib onnx_model) = Inr converted"
  shows "\<exists>init0 predict0.
           onnx_graph_to_caffe2_net lib (model_graph lib onnx_model) = Inr (init0, predict0) \<and>
           converted = (device_option_CopyFrom init0 (core_DeviceOption CPU 0),
                        device_option_CopyFrom predict0 (core_DeviceOption CPU 0),
                        core_DeviceOption CPU 0) \<and>
           events (cell_convert lib onnx_model) =
             [Print ''Convert the model to a Caffe2 model.'' NoArg,
              Call_onnx_graph_to_caffe2_net (model_graph lib onnx_model)]"
  using assms by (auto simp add: cell_convert_def run_simps Let_def split: sum.splits)

lemma cell_save_load_ok:
  assumes "outcome (cell_save_load lib fs init0 predict0) = Inr loaded"
  shows "\<exists>fs1 fs2 init_net predict_net.
           save_caffe2_net lib init0 init_file False fs = Inr fs1 \<and>
           save_caffe2_net lib predict0 predict_file True fs1 = Inr fs2 \<and>
           load_caffe2_net lib init_file fs2 = Inr init_net \<and>
           load_caffe2_net lib predict_file fs2 = Inr predict_net \<and>
           loaded = (init_net, predict_net) \<and>
           events (cell_save_load lib fs init0 predict0) =
             [Call_save_caffe2_net init0 init_file False,
              Call_save_caffe2_net predict0 predict_file True,
              Call_load_caffe2_net init_file, Call_load_caffe2_net predict_file]"
  using assms by (auto simp add: cell_save_load_def run_simps split: sum.splits)

lemma cell_run_ok:
  assumes "outcome (cell_run lib (forward lib) inputs onnx_model arrs init_net predict_net) =
             Inr results"
  shows "\<exists>pytorch_results named ws caffe2_results.
           torch_mm lib (fst inputs) (snd inputs) = Inr pytorch_results \<and>
           name_inputs lib onnx_model arrs = Inr named \<and>
           c2_native_run_net lib init_net predict_net named = Inr (ws, caffe2_results) \<and>
           results = (pytorch_results, caffe2_results) \<and>
           events (cell_run lib (forward lib) inputs onnx_model arrs init_net predict_net) =
             [Call_pytorch_model (fst inputs) (snd inputs)
                [Call_torch_mm (fst inputs) (snd inputs)],
              Call_name_inputs onnx_model arrs,
              Call_c2_native_run_net init_net predict_net named]"
  using assms
  by (auto simp add: cell_run_def run_simps Let_def split: sum.splits)

lemma verify_loop_ok:
  assumes "outcome (verify_loop lib d k pcs) = Inr u" and "device_type d \<noteq> CUDA"
  shows "list_all (\<lambda>(p, c). assert_almost_equal lib
                     (tensor_numpy lib (tensor_cpu lib (tensor_data lib p))) c k = Inr ()) pcs \<and>
         events (verify_loop lib d k pcs) =
           map (\<lambda>(p, c). Call_assert_almost_equal
                  (tensor_numpy lib (tensor_cpu lib (tensor_data lib p))) c k) pcs"
  using assms
  by (induction pcs) (auto simp add: run_simps Let_def split: sum.splits)

lemma cell_verify_ok:
  assumes "outcome (cell_verify lib d p cs) = Inr u" and "device_type d \<noteq> CUDA"
  shows "list_all (\<lambda>(p, c). assert_almost_equal lib
                     (tensor_numpy lib (tensor_cpu lib (tensor_data lib p))) c 5 = Inr ())
           (zip [p] cs) \<and>
         events (cell_verify lib d p cs) =
           map (\<lambda>(p, c). Call_assert_almost_equal
                  (tensor_numpy lib (tensor_cpu lib (tensor_data lib p))) c 5) (zip [p] cs) @
           [Print ''The exported model achieves {}-decimal precision.'' (IntArg 5)]"
proof -
  from assms(1) obtain u' where
    "outcome (verify_loop lib d 5 (zip [p] cs)) = Inr u'"
    by (auto simp add: cell_verify_def run_simps Let_def split: sum.splits)
  from verify_loop_ok [OF this assms(2)] this show ?thesis
    by (simp add: cell_verify_def run_simps Let_def)
qed

lemma cell_benchmark_ok:
  assumes "outcome (cell_benchmark lib pm inputs init_net predict_net) = Inr u"
  shows "\<exists>pytorch_times caffe2_times t1 t2.
           outcome (with_module pm (benchmark_pytorch_model lib inputs)) = Inr pytorch_times \<and>
           benchmark_caffe2_model lib init_net predict_net = Inr caffe2_times \<and>
           item0 pytorch_times = Inr t1 \<and> item0 caffe2_times = Inr t2 \<and>
           events (cell_benchmark lib pm inputs init_net predict_net) =
             [Call_benchmark_pytorch_model inputs
                (events (with_module pm (benchmark_pytorch_model lib inputs))),
              Call_benchmark_caffe2_model init_net predict_net,
              Print_time ''PyTorch model's execution time is {} / iteration.'' t1,
              Print_time ''Caffe2 model's execution time is {} / iteration.'' t2]"
  using assms by (auto simp add: cell_benchmark_def run_simps split: sum.splits)


subsection \<open>The whole notebook\<close>

text \<open>
  Claim C3, amended. The steps of the notebook happen in this order: export of the module
  to an ONNX model, conversion of the graph of that model to Caffe2 nets, run of both
  models, comparison of the outputs, benchmark of both runtimes (with the saving and
  loading of the nets between the conversion and the runs). This holds in every run, also
  one that an exception cuts short. In a run that reaches its end the exporter consumes
  the module, the parser the exported bytes, the checker and the converter the parsed
  model and its graph, \<open>save_caffe2_net\<close> the converted nets with the device option set,
  the Caffe2 run the nets loaded from the files and the named arrays, and the assertion the
  results of the two runs. The run of the PyTorch module and the benchmarks do not consume
  the output of the step before them: the module runs on the inputs of the first cell, the
  benchmarks on the module, on those inputs and on the loaded nets.
\<close>

theorem notebook_steps_in_order:
  "sorted (map rank (steps (events (notebook lib fs x1 x2)))) \<and>
   (outcome (notebook lib fs x1 x2) = Inr () \<longrightarrow>
    (\<exists>f_value onnx_model init0 predict0 fs1 fs2 init_net predict_net pytorch_results named ws
       caffe2_results pytorch_times caffe2_times t1 t2.
       outcome (with_module (forward lib) (onnx_export lib (x1, x2) True)) = Inr f_value \<and>
       ModelProto_FromString lib f_value = Inr onnx_model \<and>
       check_model lib onnx_model = Inr () \<and>
       onnx_graph_to_caffe2_net lib (model_graph lib onnx_model) = Inr (init0, predict0) \<and>
       save_caffe2_net lib (device_option_CopyFrom init0 (core_DeviceOption CPU 0))
         init_file False fs = Inr fs1 \<and>
       save_caffe2_net lib (device_option_CopyFrom predict0 (core_DeviceOption CPU 0))
         predict_file True fs1 = Inr fs2 \<and>
       load_caffe2_net lib init_file fs2 = Inr init_net \<and>
       load_caffe2_net lib predict_file fs2 = Inr predict_net \<and>
       torch_mm lib x1 x2 = Inr pytorch_results \<and>
       name_inputs lib onnx_model
         [tensor_numpy lib (tensor_data lib x1), tensor_numpy lib (tensor_data lib x2)] =
         Inr named \<and>
       c2_native_run_net lib init_net predict_net named = Inr (ws, caffe2_results) \<and>
       list_all (\<lambda>(p, c). assert_almost_equal lib
                   (tensor_numpy lib (tensor_cpu lib (tensor_data lib p))) c 5 = Inr ())
         (zip [pytorch_results] caffe2_results) \<and>
       outcome (with_module (forward lib) (benchmark_pytorch_model lib (x1, x2))) = Inr pytorch_times \<and>
       benchmark_caffe2_model lib init_net predict_net = Inr caffe2_times \<and>
       item0 pytorch_times = Inr t1 \<and>
       item0 caffe2_times = Inr t2 \<and>
       events (notebook lib fs x1 x2) =
         [Call_onnx_export (x1, x2) True
            (events (with_module (forward lib) (onnx_export lib (x1, x2) True))),
          Call_FromString f_value,
          Print ''Check the ONNX model.'' NoArg,
          Call_check_model onnx_model,
          Print ''Convert the model to a Caffe2 model.'' NoArg,
          Call_onnx_graph_to_caffe2_net (model_graph lib onnx_model),
          Call_save_caffe2_net (device_option_CopyFrom init0 (core_DeviceOption CPU 0))
            init_file False,
          Call_save_caffe2_net (device_option_CopyFrom predict0 (core_DeviceOption CPU 0))
            predict_file True,
          Call_load_caffe2_net init_file,
          Call_load_caffe2_net predict_file,
          Call_pytorch_model x1 x2 [Call_torch_mm x1 x2],
          Call_name_inputs onnx_model
            [tensor_numpy lib (tensor_data lib x1), tensor_numpy lib (tensor_data lib x2)],
          Call_c2_native_run_net init_net predict_net named] @
         map (\<lambda>(p, c). Call_assert_almost_equal
                (tensor_numpy lib (tensor_cpu lib (tensor_data lib p))) c 5)
           (zip [pytorch_results] caffe2_results) @
         [Print ''The exported model achieves {}-decimal precision.'' (IntArg 5),
          Call_benchmark_pytorch_model (x1, x2)
            (events (with_module (forward lib) (benchmark_pytorch_model lib (x1, x2)))),
          Call_benchmark_caffe2_model init_net predict_net,
          Print_time ''PyTorch model's execution time is {} / iteration.'' t1,
          Print_time ''Caffe2 model's execution time is {} / iteration.'' t2]))"
  (is "_ \<and> (_ \<longrightarrow> ?dataflow)")
proof (intro conjI impI)
  show "sorted (map rank (steps (events (notebook lib fs x1 x2))))"
    by (rule conjunct1 [OF notebook_sorted])
next
  assume ok: "outcome (notebook lib fs x1 x2) = Inr ()"
  let ?d = "core_DeviceOption CPU 0"
  from ok obtain onnx_model converted loaded results where
    o1: "outcome (cell_export lib (forward lib) (x1, x2)) = Inr onnx_model" and
    o2: "outcome (cell_convert lib onnx_model) = Inr converted" and
    o3: "outcome (cell_save_load lib fs (fst converted) (fst (snd converted))) = Inr loaded" and
    o4: "outcome (cell_run lib (forward lib) (x1, x2) onnx_model
           (cell_caffe2_inputs lib (x1, x2)) (fst loaded) (snd loaded)) = Inr results" and
    o5: "outcome (cell_verify lib (snd (snd converted)) (fst results) (snd results)) = Inr ()" and
    o6: "outcome (cell_benchmark lib (forward lib) (x1, x2) (fst loaded) (snd loaded)) = Inr ()"
    by (auto simp add: notebook_def Let_def outcome_then_run split: sum.splits)
  have evs: "events (notebook lib fs x1 x2) =
      events (cell_export lib (forward lib) (x1, x2)) @
      events (cell_convert lib onnx_model) @
      events (cell_save_load lib fs (fst converted) (fst (snd converted))) @
      events (cell_run lib (forward lib) (x1, x2) onnx_model
           (cell_caffe2_inputs lib (x1, x2)) (fst loaded) (snd loaded)) @
      events (cell_verify lib (snd (snd converted)) (fst results) (snd results)) @
      events (cell_benchmark lib (forward lib) (x1, x2) (fst loaded) (snd loaded))"
    by (simp add: notebook_def Let_def events_then_run o1 o2 o3 o4 o5)
  from cell_export_ok [OF o1] obtain f_value where
    a1: "outcome (with_module (forward lib) (onnx_export lib (x1, x2) True)) = Inr f_value"
        "ModelProto_FromString lib f_value = Inr onnx_model"
        "check_model lib onnx_model = Inr ()" and
    e1: "events (cell_export lib (forward lib) (x1, x2)) =
           [Call_onnx_export (x1, x2) True
              (events (with_module (forward lib) (onnx_export lib (x1, x2) True))),
            Call_FromString f_value,
            Print ''Check the ONNX model.'' NoArg, Call_check_model onnx_model]"
    by blast
  from cell_convert_ok [OF o2] obtain init0 predict0 where
    a2: "onnx_graph_to_caffe2_net lib (model_graph lib onnx_model) = Inr (init0, predict0)" and
    c2: "converted = (device_option_CopyFrom init0 ?d, device_option_CopyFrom predict0 ?d, ?d)" and
    e2: "events (cell_convert lib onnx_model) =
           [Print ''Convert the model to a Caffe2 model.'' NoArg,
            Call_onnx_graph_to_caffe2_net (model_graph lib onnx_model)]"
    by blast
  from cell_save_load_ok [OF o3] c2 obtain fs1 fs2 init_net predict_net where
    a3: "save_caffe2_net lib (device_option_CopyFrom init0 ?d) init_file False fs = Inr fs1"
        "save_caffe2_net lib (device_option_CopyFrom predict0 ?d) predict_file True fs1 = Inr fs2"
        "load_caffe2_net lib init_file fs2 = Inr init_net"
        "load_caffe2_net lib predict_file fs2 = Inr predict_net" and
    c3: "loaded = (init_net, predict_net)" and
    e3: "events (cell_save_load lib fs (fst converted) (fst (snd converted))) =
           [Call_save_caffe2_net (device_option_CopyFrom init0 ?d) init_file False,
            Call_save_caffe2_net (device_option_CopyFrom predict0 ?d) predict_file True,
            Call_load_caffe2_net init_file, Call_load_caffe2_net predict_file]"
    by auto
  let ?arrs = "[tensor_numpy lib (tensor_data lib x1), tensor_numpy lib (tensor_data lib x2)]"
  have arrs: "cell_caffe2_inputs lib (x1, x2) = ?arrs"
    by (simp add: cell_caffe2_inputs_def tuple_items_def)
  from cell_run_ok [OF o4] c3 arrs obtain pytorch_results named ws caffe2_results where
    a4: "torch_mm lib x1 x2 = Inr pytorch_results"
        "name_inputs lib onnx_model ?arrs = Inr named"
        "c2_native_run_net lib init_net predict_net named = Inr (ws, caffe2_results)" and
    c4: "results = (pytorch_results, caffe2_results)" and
    e4: "events (cell_run lib (forward lib) (x1, x2) onnx_model
           (cell_caffe2_inputs lib (x1, x2)) (fst loaded) (snd loaded)) =
           [Call_pytorch_model x1 x2 [Call_torch_mm x1 x2], Call_name_inputs onnx_model ?arrs,
            Call_c2_native_run_net init_net predict_net named]"
    by auto
  have cpu: "device_type (snd (snd converted)) \<noteq> CUDA"
    by (simp add: c2 core_DeviceOption_def CPU_def CUDA_def)
  from cell_verify_ok [OF o5 cpu] c4 have
    a5: "list_all (\<lambda>(p, c). assert_almost_equal lib
                     (tensor_numpy lib (tensor_cpu lib (tensor_data lib p))) c 5 = Inr ())
           (zip [pytorch_results] caffe2_results)" and
    e5: "events (cell_verify lib (snd (snd converted)) (fst results) (snd results)) =
           map (\<lambda>(p, c). Call_assert_almost_equal
                  (tensor_numpy lib (tensor_cpu lib (tensor_data lib p))) c 5)
             (zip [pytorch_results] caffe2_results) @
           [Print ''The exported model achieves {}-decimal precision.'' (IntArg 5)]"
    by simp_all
  from cell_benchmark_ok [OF o6] c3 obtain pytorch_times caffe2_times t1 t2 where
    a6: "outcome (with_module (forward lib) (benchmark_pytorch_model lib (x1, x2))) = Inr pytorch_times"
        "benchmark_caffe2_model lib init_net predict_net = Inr caffe2_times"
        "item0 pytorch_times = Inr t1" "item0 caffe2_times = Inr t2" and
    e6: "events (cell_benchmark lib (forward lib) (x1, x2) (fst loaded) (snd loaded)) =
           [Call_benchmark_pytorch_model (x1, x2)
              (events (with_module (forward lib) (benchmark_pytorch_model lib (x1, x2)))),
            Call_benchmark_caffe2_model init_net predict_net,
            Print_time ''PyTorch model's execution time is {} / iteration.'' t1,
            Print_time ''Caffe2 model's execution time is {} / iteration.'' t2]"
    by auto
  have all: "events (notebook lib fs x1 x2) =
         [Call_onnx_export (x1, x2) True
            (events (with_module (forward lib) (onnx_export lib (x1, x2) True))),
          Call_FromString f_value,
          Print ''Check the ONNX model.'' NoArg,
          Call_check_model onnx_model,
          Print ''Convert the model to a Caffe2 model.'' NoArg,
          Call_onnx_graph_to_caffe2_net (model_graph lib onnx_model),
          Call_save_caffe2_net (device_option_CopyFrom init0 ?d) init_file False,
          Call_save_caffe2_net (device_option_CopyFrom predict0 ?d) predict_file True,
          Call_load_caffe2_net init_file,
          Call_load_caffe2_net predict_file,
          Call_pytorch_model x1 x2 [Call_torch_mm x1 x2],
          Call_name_inputs onnx_model ?arrs,
          Call_c2_native_run_net init_net predict_net named] @
         map (\<lambda>(p, c). Call_assert_almost_equal
                (tensor_numpy lib (tensor_cpu lib (tensor_data lib p))) c 5)
           (zip [pytorch_results] caffe2_results) @
         [Print ''The exported model achieves {}-decimal precision.'' (IntArg 5),
          Call_benchmark_pytorch_model (x1, x2)
            (events (with_module (forward lib) (benchmark_pytorch_model lib (x1, x2)))),
          Call_benchmark_caffe2_model init_net predict_net,
          Print_time ''PyTorch model's execution time is {} / iteration.'' t1,
          Print_time ''Caffe2 model's execution time is {} / iteration.'' t2]"
    unfolding evs e1 e2 e3 e4 e5 e6 by simp
  from a1 a2 a3 a4 a5 a6 all show ?dataflow
    by blast
qed


lemmas cell_defs = notebook_def cell_export_def cell_convert_def cell_caffe2_inputs_def
  cell_save_load_def cell_run_def cell_verify_def cell_benchmark_def
  tuple_items_def item0_def init_file_def predict_file_def device_option_CopyFrom_def
  core_DeviceOption_def

theorem notebook_steps_in_order_witness:
  "outcome (notebook small_library [] 2 3) = Inr () \<and>
   steps (events (notebook small_library [] 2 3)) =
     [Export, Export, Export, Convert, Reload, Reload, Reload, Reload, Run, Run, Run, Assert,
      Benchmark, Benchmark] \<and>
   sorted (map rank (steps (events (notebook small_library [] 2 3)))) \<and>
   events (notebook small_library [] 2 3) ! 0 = Call_onnx_export (2, 3) True [Call_torch_mm 2 3]"
  using notebook_steps_in_order [of small_library "[]" 2 3]
  by (simp add: cell_defs run_simps library_defs Let_def CPU_def CUDA_def steps_def
      del: with_module.simps)

text \<open>
  Claim C3 as it is written says that each step consumes the output of the step before
  it. The two runs below reach their end and differ in what the runs of the models return
  and the comparison consumes (6 in one, 5 in the other), and in both the benchmarks are
  called on the same arguments: the inputs of the first cell and the nets loaded from the
  files. The benchmark does not consume the output of the step before it.
\<close>

theorem benchmark_ignores_previous_output:
  "outcome (notebook small_library [] 2 3) = Inr () \<and>
   outcome (notebook sum_library [] 2 3) = Inr () \<and>
   assertions (events (notebook small_library [] 2 3)) = [(6, 6, 5)] \<and>
   assertions (events (notebook sum_library [] 2 3)) = [(5, 5, 5)] \<and>
   benchmark_arguments (events (notebook small_library [] 2 3)) =
     [Inl (2, 3),
      Inr (\<lparr>device_option = Some (core_DeviceOption CPU 0), net_rest = ''init''\<rparr>,
           \<lparr>device_option = Some (core_DeviceOption CPU 0), net_rest = ''Gemm''\<rparr>)] \<and>
   benchmark_arguments (events (notebook sum_library [] 2 3)) =
     [Inl (2, 3),
      Inr (\<lparr>device_option = Some (core_DeviceOption CPU 0), net_rest = ''init''\<rparr>,
           \<lparr>device_option = Some (core_DeviceOption CPU 0), net_rest = ''Gemm''\<rparr>)]"
  by (simp add: cell_defs run_simps library_defs Let_def CPU_def CUDA_def assertions_def
      benchmark_arguments_def del: with_module.simps)

section \<open>The inputs of the two runs\<close>

lemma caffe2_runs_simps [simp]:
  "caffe2_runs [] = []"
  "caffe2_runs (ev # evs) =
     (case caffe2_run_of ev of None \<Rightarrow> caffe2_runs evs | Some r \<Rightarrow> r # caffe2_runs evs)"
  unfolding caffe2_runs_def by simp_all








end
